theory Spec2Isabelle
  imports Main "HOL-Library.FSet"
begin

unbundle bit_operations_syntax

section \<open>Values and exceptions of the host language\<close>

text \<open>
  A floating-point number of the interpreter. Nothing of its arithmetic is fixed here:
  every operation on it is the interpreter's.
\<close>

typedecl pyfloat

text \<open>
  The values a \<open>Const\<close> can hold: the number of a numeric literal (an unbounded integer,
  a float, or a complex number with its two float parts), the text of a string literal, a
  set of such values, and whatever an operator returns on them.
\<close>

datatype pyvalue =
    PyInt int
  | PyFloat pyfloat
  | PyComplex pyfloat pyfloat
  | PyStr string
  | PySet "pyvalue fset"

text \<open>
  Every exception the translator can end with is a value. \<open>ExpressionError\<close> is the
  module's own class; the others are Python's built-in exceptions. The text carried is the
  fixed part of the message (the source appends a rendering of the offending fragment).
\<close>

datatype error =
    ExpressionError string
  | TypeError string
  | NameError string
  | AttributeError string
  | KeyError string
  | IndexError
  | ValueError string
  | ZeroDivisionError
  | AssertionError

section \<open>The expression tree\<close>

text \<open>
  The objects the translator builds and returns: instances of the \<open>Expr\<close> classes, Python
  tuples of such objects (the \<open>args\<close> field of \<open>Call\<close> and \<open>Logical\<close> is whatever tuple
  \<open>*args\<close> collected, and a tuple passed as one positional argument stays one element of
  it), and \<open>None\<close>, which a function returns when it falls off its end.
  \<open>Call.__init__(self, fcn, *args)\<close> and \<open>Logical.__init__(self, *args)\<close> store the
  tuple of positional arguments: the list of a constructor below is that tuple.
\<close>

datatype obj =
    PyNone
  | Tuple "obj list"
  | Const pyvalue
  | Name string
  | Call string "obj list"
  | UnaryOp string "obj list"
  | BinOp string "obj list"
  | Relation string obj obj
  | Interval obj obj obj bool
  | And "obj list"
  | Or "obj list"

record Dim =
  names :: "string list"
  expr :: obj

fun isinstance_Const :: "obj \<Rightarrow> bool" where
  "isinstance_Const (Const v) = True"
| "isinstance_Const _ = False"

fun isinstance_UnaryOp :: "obj \<Rightarrow> bool" where
  "isinstance_UnaryOp (UnaryOp f xs) = True"
| "isinstance_UnaryOp _ = False"

fun isinstance_BinOp :: "obj \<Rightarrow> bool" where
  "isinstance_BinOp (BinOp f xs) = True"
| "isinstance_BinOp _ = False"

fun isinstance_And :: "obj \<Rightarrow> bool" where
  "isinstance_And (And xs) = True"
| "isinstance_And _ = False"

fun isinstance_Or :: "obj \<Rightarrow> bool" where
  "isinstance_Or (Or xs) = True"
| "isinstance_Or _ = False"

text \<open>\<open>x.args\<close> where the source reads it: on \<open>And\<close>, \<open>Or\<close> and \<open>BinOp\<close> instances.\<close>

fun args :: "obj \<Rightarrow> obj list" where
  "args (And xs) = xs"
| "args (Or xs) = xs"
| "args (BinOp f xs) = xs"
| "args (UnaryOp f xs) = xs"
| "args (Call f xs) = xs"
| "args _ = []"

text \<open>\<open>x.fcn\<close> and \<open>x.value\<close>, read by the source after the matching \<open>isinstance\<close> test.\<close>

fun obj_fcn :: "obj \<Rightarrow> string" where
  "obj_fcn (Call f xs) = f"
| "obj_fcn (UnaryOp f xs) = f"
| "obj_fcn (BinOp f xs) = f"
| "obj_fcn _ = undefined"

fun obj_value :: "obj \<Rightarrow> pyvalue" where
  "obj_value (Const v) = v"
| "obj_value _ = undefined"

section \<open>Exceptions as values\<close>

definition bind :: "error + 'a \<Rightarrow> ('a \<Rightarrow> error + 'b) \<Rightarrow> error + 'b" where
  "bind m f = (case m of Inl e \<Rightarrow> Inl e | Inr v \<Rightarrow> f v)"

lemma bind_cong [fundef_cong]:
  "m = m' \<Longrightarrow> (\<And>v. m' = Inr v \<Longrightarrow> f v = f' v) \<Longrightarrow> bind m f = bind m' f'"
  by (auto simp: bind_def split: sum.splits)

lemma bind_Inl [simp]: "bind (Inl e) f = Inl e"
  by (simp add: bind_def)

lemma bind_Inr [simp]: "bind (Inr v) f = f v"
  by (simp add: bind_def)

text \<open>
  A list comprehension \<open>[f(x) for x in xs]\<close> evaluates \<open>f\<close> left to right and is left
  by the first exception.
\<close>

fun comprehension :: "(error + 'a) list \<Rightarrow> error + 'a list" where
  "comprehension [] = Inr []"
| "comprehension (m # ms) = bind m (\<lambda>v. bind (comprehension ms) (\<lambda>vs. Inr (v # vs)))"

section \<open>The logical normalizer\<close>

text \<open>The table \<open>inverse\<close> of \<open>Expr.parse\<close>; a missing key is a \<open>KeyError\<close>.\<close>

definition inverse_tbl :: "string \<Rightarrow> error + string" where
  "inverse_tbl c =
     (if c = ''=='' then Inr ''!=''
      else if c = ''!='' then Inr ''==''
      else if c = ''<'' then Inr ''>=''
      else if c = ''<='' then Inr ''>''
      else if c = ''>'' then Inr ''<=''
      else if c = ''>='' then Inr ''<''
      else if c = ''in'' then Inr ''not in''
      else if c = ''not in'' then Inr ''in''
      else Inl (KeyError c))"

fun not_fn :: "obj \<Rightarrow> error + obj" where
  "not_fn (Relation c a k) = bind (inverse_tbl c) (\<lambda>c'. Inr (Relation c' a k))"
| "not_fn (And xs) = bind (comprehension (map not_fn xs)) (\<lambda>ys. Inr (Or ys))"
| "not_fn (Or xs) =
     bind (comprehension (map not_fn (filter (\<lambda>x. \<not> isinstance_And x) xs))) (\<lambda>notlogical.
     bind (comprehension (map not_fn (filter isinstance_And xs))) (\<lambda>logical.
       if length logical = 0 then Inr (And notlogical)
       else Inr (Or (map (\<lambda>x. And ([x] @ notlogical)) logical))))"
| "not_fn _ = Inl AssertionError"

text \<open>
  \<open>itertools.product(*iterables)\<close>: the Cartesian product of the pools, the rightmost
  pool advancing fastest, each element a tuple with one entry per pool.
\<close>

fun product :: "'a list list \<Rightarrow> 'a list list" where
  "product [] = [[]]"
| "product (pool # pools) = concat (map (\<lambda>x. map (\<lambda>r. x # r) (product pools)) pool)"

text \<open>
  The operands of \<open>and_fn\<close> after its first five statements: \<open>notlogical\<close> extended by the
  \<open>args\<close> of every \<open>And\<close> operand, and \<open>ors\<close> extended by the \<open>Or\<close> of them.
\<close>

definition and_notlogical :: "obj list \<Rightarrow> obj list" where
  "and_notlogical exprs =
     filter (\<lambda>x. \<not> (isinstance_And x \<or> isinstance_Or x)) exprs
       @ concat (map args (filter isinstance_And exprs))"

definition and_ors :: "obj list \<Rightarrow> obj list" where
  "and_ors exprs = filter isinstance_Or exprs @ [Or (and_notlogical exprs)]"

text \<open>
  \<open>itertools.product\<close> is called with ONE iterable, the list \<open>[x.args for x in ors]\<close>,
  whose elements are tuples: it yields one 1-tuple per element of that list, and
  \<open>And(*args)\<close> receives that tuple as its only positional argument. The result is
  the argument list of \<open>out\<close>.
\<close>

definition and_branches :: "obj list \<Rightarrow> obj list" where
  "and_branches exprs =
     map (\<lambda>t. And t) (product [map (\<lambda>x. Tuple (args x)) (and_ors exprs)])"

definition and_fn :: "obj list \<Rightarrow> error + obj" where
  "and_fn exprs =
     (let out = Or (and_branches exprs)
      in if length (args out) = 0 then Inl AssertionError
         else if length (args out) = 1 then Inr (args out ! 0)
         else Inr out)"

definition or_fn :: "obj list \<Rightarrow> obj" where
  "or_fn exprs =
     Or (filter (\<lambda>x. \<not> isinstance_Or x) exprs @ concat (map args (filter isinstance_Or exprs)))"

section \<open>The generic syntax tree\<close>

text \<open>
  The nodes of Python's \<open>ast\<close> module that the translator tests for, and some it does not
  handle. A numeric literal carries its number \<open>n\<close>: a \<open>PyInt\<close>, a \<open>PyFloat\<close> or a
  \<open>PyComplex\<close>.
\<close>

datatype cmpop =
  ast_Eq | ast_NotEq | ast_Lt | ast_LtE | ast_Gt | ast_GtE | ast_Is | ast_IsNot | ast_In | ast_NotIn

datatype unaryop = ast_Invert | ast_Not | ast_UAdd | ast_USub

datatype operator =
  ast_Add | ast_Sub | ast_Mult | ast_Div | ast_Mod | ast_Pow | ast_LShift | ast_RShift
  | ast_BitOr | ast_BitXor | ast_BitAnd | ast_FloorDiv

datatype boolop = ast_And | ast_Or

datatype expr_context = ast_Load | ast_Store | ast_Del | ast_Param

datatype ast =
    ast_Num pyvalue
  | ast_Str string
  | ast_Dict "ast list" "ast list"
  | ast_Set "ast list"
  | ast_Name string expr_context
  | ast_Compare ast "cmpop list" "ast list"
  | ast_UnaryOp unaryop ast
  | ast_BoolOp boolop "ast list"
  | ast_BinOp ast operator ast
  | ast_Call ast "ast list"
  | ast_Attribute ast string
  | ast_Subscript ast ast
  | ast_IfExp ast ast ast
  | ast_List "ast list"
  | ast_Tuple "ast list"

datatype stmt = ast_Expr ast | ast_Return ast | ast_Assign "ast list" ast | ast_Pass

text \<open>\<open>xs[i]\<close> raises \<open>IndexError\<close> out of range.\<close>

definition subscript :: "'a list \<Rightarrow> nat \<Rightarrow> error + 'a" where
  "subscript xs i = (if i < length xs then Inr (xs ! i) else Inl IndexError)"

section \<open>The host environment\<close>

text \<open>
  Objects of the running interpreter that a callee can resolve to: a module, a function of
  a module, or anything else, each under its name.
\<close>

datatype pyref = Module string | Function string string | Object string

text \<open>
  What the translator takes from the interpreter and not from this module: the result of
  a binary operator outside the integer cases fixed below (floating-point operands and
  results, strings, sets, operand types the operator rejects), \<open>str\<close> and \<open>repr\<close> of a value, the
  namespace \<open>globals()\<close> of the module, and \<open>getattr\<close>.
\<close>

record host =
  operator_result :: "string \<Rightarrow> pyvalue \<Rightarrow> pyvalue \<Rightarrow> error + pyvalue"
  str_value :: "pyvalue \<Rightarrow> string"
  repr_value :: "pyvalue \<Rightarrow> string"
  globals :: "string \<Rightarrow> pyref option"
  getattr :: "pyref \<Rightarrow> string \<Rightarrow> error + pyref"

text \<open>The class attribute \<open>Expr.recognized\<close>: \<open>math.sqrt\<close> and \<open>numpy.sqrt\<close>.\<close>

definition recognized :: "(pyref \<times> string) list" where
  "recognized = [(Function ''math'' ''sqrt'', ''sqrt''), (Function ''numpy'' ''sqrt'', ''sqrt'')]"

section \<open>The tables of the translator\<close>

text \<open>
  The table \<open>calculate\<close>: each entry applies Python's operator to the two values. On
  integers \<open>+ - * // % | & ^\<close> and \<open>**\<close> with a non-negative exponent are exact and the
  same in every Python version (\<open>//\<close> and \<open>%\<close> floor, and raise on a zero divisor);
  everything else is the interpreter's: \<open>/\<close> and \<open>**\<close> with a negative exponent on
  integers (whose result can be a \<open>PyFloat\<close>), and every operand pair with a float, a
  complex number, a string or a set.
\<close>

definition calculate_keys :: "string list" where
  "calculate_keys = [''+'', ''-'', ''*'', ''/'', ''//'', ''%'', ''**'', ''|'', ''&'', ''^'']"

fun calculate :: "host \<Rightarrow> string \<Rightarrow> pyvalue \<Rightarrow> pyvalue \<Rightarrow> error + pyvalue" where
  "calculate h f (PyInt x) (PyInt y) =
     (if f \<notin> set calculate_keys then Inl (KeyError f)
      else if f = ''+'' then Inr (PyInt (x + y))
      else if f = ''-'' then Inr (PyInt (x - y))
      else if f = ''*'' then Inr (PyInt (x * y))
      else if f = ''//'' then (if y = 0 then Inl ZeroDivisionError else Inr (PyInt (x div y)))
      else if f = ''%'' then (if y = 0 then Inl ZeroDivisionError else Inr (PyInt (x mod y)))
      else if f = ''**'' \<and> 0 \<le> y then Inr (PyInt (x ^ nat y))
      else if f = ''|'' then Inr (PyInt (x OR y))
      else if f = ''&'' then Inr (PyInt (x AND y))
      else if f = ''^'' then Inr (PyInt (x XOR y))
      else operator_result h f (PyInt x) (PyInt y))"
| "calculate h f x y =
     (if f \<notin> set calculate_keys then Inl (KeyError f) else operator_result h f x y)"

text \<open>The \<open>isinstance\<close> chains that name the operator of a node.\<close>

fun cmp_symbol :: "cmpop \<Rightarrow> error + string" where
  "cmp_symbol ast_Eq = Inr ''==''"
| "cmp_symbol ast_NotEq = Inr ''!=''"
| "cmp_symbol ast_Lt = Inr ''<''"
| "cmp_symbol ast_LtE = Inr ''<=''"
| "cmp_symbol ast_Gt = Inr ''>''"
| "cmp_symbol ast_GtE = Inr ''>=''"
| "cmp_symbol ast_In = Inr ''in''"
| "cmp_symbol ast_NotIn = Inr ''not in''"
| "cmp_symbol _ = Inl (ExpressionError ''only comparision relations supported'')"

fun binop_symbol :: "operator \<Rightarrow> error + string" where
  "binop_symbol ast_Add = Inr ''+''"
| "binop_symbol ast_Sub = Inr ''-''"
| "binop_symbol ast_Mult = Inr ''*''"
| "binop_symbol ast_Div = Inr ''/''"
| "binop_symbol ast_FloorDiv = Inr ''//''"
| "binop_symbol ast_Mod = Inr ''%''"
| "binop_symbol ast_Pow = Inr ''**''"
| "binop_symbol ast_BitOr = Inr ''|''"
| "binop_symbol ast_BitAnd = Inr ''&''"
| "binop_symbol ast_BitXor = Inr ''^''"
| "binop_symbol _ = Inl (ExpressionError ''only binary operators supported'')"

section \<open>The node translator\<close>

text \<open>
  The name \<open>ops\<close> that the two comparison tests read in \<open>len(ops)\<close>. Neither \<open>recurse\<close>
  nor \<open>parse\<close> binds it, the module has no global of that name and it is no builtin:
  reading it raises \<open>NameError\<close>. (The operators of the node are \<open>node.ops\<close>.)
\<close>

definition ops :: "error + cmpop list" where
  "ops = Inl (NameError ''ops'')"

text \<open>The end of the single-comparison case, from the translated sides.\<close>

definition relation_of :: "string \<Rightarrow> obj \<Rightarrow> obj \<Rightarrow> error + obj" where
  "relation_of cmp left right =
     (if \<not> isinstance_Const left \<and> isinstance_Const right then Inr (Relation cmp left right)
      else if isinstance_Const left \<and> \<not> isinstance_Const right
        then bind (inverse_tbl cmp) (\<lambda>c. Inr (Relation c right left))
      else Inl (ExpressionError
        ''comparisons must relate an unknown expression to a known constant''))"

text \<open>
  The four accepted operator pairs of a chained comparison: whether \<open>low\<close> is the left
  end (else it is the right end), and \<open>lowclosed\<close>.
\<close>

definition interval_orientation :: "cmpop \<Rightarrow> cmpop \<Rightarrow> error + (bool \<times> bool)" where
  "interval_orientation op0 op1 =
     (if op0 = ast_LtE \<and> op1 = ast_Lt then Inr (True, True)
      else if op0 = ast_Lt \<and> op1 = ast_LtE then Inr (True, False)
      else if op0 = ast_Gt \<and> op1 = ast_GtE then Inr (False, True)
      else if op0 = ast_GtE \<and> op1 = ast_Gt then Inr (False, False)
      else Inl (ExpressionError
        ''interval comparisons may be A <= x < B, A < x <= B, A > x >= B, A >= x > B, but no other combination''))"

definition interval_of :: "obj \<Rightarrow> obj \<Rightarrow> obj \<Rightarrow> bool \<Rightarrow> error + obj" where
  "interval_of arg low high lowclosed =
     (if isinstance_Const low \<and> isinstance_Const high \<and> \<not> isinstance_Const arg
      then Inr (Interval arg low high lowclosed)
      else Inl (ExpressionError
        ''interval comparisons must have known constants on the low and high edge with an unknown expression in the middle''))"

text \<open>
  The end of the unary minus and bitwise-not cases: \<open>UnaryOp.__init__(self, fcn, arg)\<close>
  passes its one argument on, so \<open>args\<close> is the 1-tuple of it.
\<close>

definition unary_of :: "string \<Rightarrow> obj \<Rightarrow> obj" where
  "unary_of f content =
     (if isinstance_UnaryOp content \<and> obj_fcn content = f then content
      else UnaryOp f [content])"

text \<open>
  The end of the binary-operator case. \<open>BinOp\<close> inherits \<open>Call.__init__(self, fcn, *args)\<close>
  and is called with the operator and ONE tuple, which becomes the only element of \<open>args\<close>.
\<close>

definition binop_of :: "host \<Rightarrow> string \<Rightarrow> obj \<Rightarrow> obj \<Rightarrow> error + obj" where
  "binop_of h f left right =
     (if isinstance_Const left \<and> isinstance_Const right
        then bind (calculate h f (obj_value left) (obj_value right)) (\<lambda>v. Inr (Const v))
      else if isinstance_BinOp left \<and> obj_fcn left = f \<and> isinstance_BinOp right \<and> obj_fcn right = f
        then Inr (BinOp f [Tuple (args left @ args right)])
      else if isinstance_BinOp left \<and> obj_fcn left = f
        then Inr (BinOp f [Tuple (args left @ [right])])
      else if isinstance_BinOp right \<and> obj_fcn right = f
        then Inr (BinOp f [Tuple ([left] @ args right)])
      else Inr (BinOp f [Tuple [left, right]]))"

text \<open>\<open>set(...)\<close> of the values of a set literal: a set is not hashable.\<close>

fun hashable :: "pyvalue \<Rightarrow> bool" where
  "hashable (PySet s) = False"
| "hashable _ = True"

definition set_of :: "pyvalue list \<Rightarrow> error + pyvalue" where
  "set_of vs =
     (if list_all hashable vs then Inr (PySet (fset_of_list vs))
      else Inl (TypeError ''unhashable type''))"

text \<open>\<open>node.func.id\<close>: only a \<open>Name\<close> node has the attribute.\<close>

fun attr_id :: "ast \<Rightarrow> error + string" where
  "attr_id (ast_Name ident ctx) = Inr ident"
| "attr_id _ = Inl (AttributeError ''id'')"

fun resolve :: "host \<Rightarrow> ast \<Rightarrow> error + pyref" where
  "resolve h (ast_Attribute v attr) = bind (resolve h v) (\<lambda>r. getattr h r attr)"
| "resolve h (ast_Name ident ctx) =
     (case globals h ident of None \<Rightarrow> Inl (KeyError ident) | Some r \<Rightarrow> Inr r)"
| "resolve h _ = Inl (ExpressionError ''not a function name'')"

lemma member_size: "x \<in> set xs \<Longrightarrow> size x < Suc (size_list size xs)"
  by (simp add: less_Suc_eq_le size_list_estimation')

lemma subscript_size: "subscript xs i = Inr x \<Longrightarrow> size x < Suc (size_list size xs)"
  by (auto simp: subscript_def intro: member_size split: if_splits)

text \<open>
  \<open>recurse(node, relations=False, intervals=False)\<close>. The cases follow the \<open>elif\<close> chain,
  grouped by the class of the node. The last \<open>else\<close> builds an \<open>ExpressionError\<close> and drops
  it (there is no \<open>raise\<close>), so the function falls off its end and returns \<open>None\<close>.
\<close>

function recurse :: "host \<Rightarrow> bool \<Rightarrow> bool \<Rightarrow> ast \<Rightarrow> error + obj" where
  "recurse h relations intervals (ast_Num n) = Inr (Const n)"
| "recurse h relations intervals (ast_Str s) = Inr (Const (PyStr s))"
| "recurse h relations intervals (ast_Dict keys vals) =
     (if length keys = 0 then Inr (Const (PySet {||})) else Inr PyNone)"
| "recurse h relations intervals (ast_Set elts) =
     bind (comprehension (map (recurse h False False) elts)) (\<lambda>content.
       if list_all isinstance_Const content
       then bind (set_of (map obj_value content)) (\<lambda>v. Inr (Const v))
       else Inl (ExpressionError ''sets in expressions may not contain variable contents''))"
| "recurse h relations intervals (ast_Name ident ctx) =
     (if ctx = ast_Load then Inr (Name ident) else Inr PyNone)"
| "recurse h relations intervals (ast_Compare left node_ops comparators) =
     bind (if relations then bind ops (\<lambda>os. Inr (length os = 1)) else Inr False) (\<lambda>single.
       if single then
         bind (subscript node_ops 0) (\<lambda>op0.
         bind (cmp_symbol op0) (\<lambda>cmp.
         bind (recurse h False False left) (\<lambda>l.
         bind (subscript comparators 0) (\<lambda>c0.
         bind (recurse h False False c0) (\<lambda>r.
           relation_of cmp l r)))))
       else
         bind (if intervals then bind ops (\<lambda>os. Inr (length os = 2)) else Inr False) (\<lambda>chained.
           if chained then
             bind (subscript node_ops 0) (\<lambda>op0.
             bind (subscript node_ops 1) (\<lambda>op1.
             bind (interval_orientation op0 op1) (\<lambda>(lowleft, lowclosed).
             bind (subscript comparators 1) (\<lambda>c1.
             bind (if lowleft
                   then bind (recurse h False False left) (\<lambda>low.
                        bind (recurse h False False c1) (\<lambda>high. Inr (low, high)))
                   else bind (recurse h False False c1) (\<lambda>low.
                        bind (recurse h False False left) (\<lambda>high. Inr (low, high))))
               (\<lambda>(low, high).
             bind (subscript comparators 0) (\<lambda>c0.
             bind (recurse h False False c0) (\<lambda>arg.
               interval_of arg low high lowclosed)))))))
           else Inl (ExpressionError
             ''comparison operators are only allowed at the top of an expression and only interval ranges are allowed to be chained'')))"
| "recurse h relations intervals (ast_UnaryOp op operand) =
     (if relations \<and> op = ast_Not then bind (recurse h True False operand) not_fn
      else if op = ast_USub
        then bind (recurse h False False operand) (\<lambda>content. Inr (unary_of ''-'' content))
      else if op = ast_UAdd then recurse h False False operand
      else if op = ast_Invert
        then bind (recurse h False False operand) (\<lambda>content. Inr (unary_of ''~'' content))
      else Inl (ExpressionError ''only unary operators supported''))"
| "recurse h relations intervals (ast_BoolOp op vals) =
     (if relations \<and> op = ast_And
        then bind (comprehension (map (recurse h True False) vals)) and_fn
      else if relations \<and> op = ast_Or
        then bind (comprehension (map (recurse h True False) vals)) (\<lambda>xs. Inr (or_fn xs))
      else Inl (ExpressionError
        ''logical operators are only allowed at the top of an expression''))"
| "recurse h relations intervals (ast_BinOp left op right) =
     bind (binop_symbol op) (\<lambda>f.
     bind (recurse h False False left) (\<lambda>l.
     bind (recurse h False False right) (\<lambda>r.
       binop_of h f l r)))"
| "recurse h relations intervals (ast_Call func cargs) =
     bind (attr_id func) (\<lambda>ident.
     bind (if ident \<in> set (map snd recognized) then Inr (Some ident)
           else bind (resolve h func) (\<lambda>r. Inr (map_of recognized r))) (\<lambda>f.
       case f of
         None \<Rightarrow> Inl (ExpressionError ''unhandled function in expression'')
       | Some f' \<Rightarrow>
           bind (comprehension (map (recurse h False False) cargs)) (\<lambda>xs.
             Inr (Call f' [Tuple xs]))))"
| "recurse h relations intervals (ast_Attribute v attr) = Inr PyNone"
| "recurse h relations intervals (ast_Subscript v sl) = Inr PyNone"
| "recurse h relations intervals (ast_IfExp test body orelse) = Inr PyNone"
| "recurse h relations intervals (ast_List elts) = Inr PyNone"
| "recurse h relations intervals (ast_Tuple elts) = Inr PyNone"
  by pat_completeness auto
termination
  by (relation "measure (\<lambda>(h, r, i, n). size n)")
     (auto dest!: subscript_size member_size)

section \<open>The top-level entry\<close>

text \<open>
  What \<open>Expr.parse\<close> holds after the syntax adapter has run: for a callable the node that
  \<open>meta.decompiler.decompile_func\<close> returned, for text the body of the module that
  \<open>ast.parse\<close> returned. The body of a \<open>Lambda\<close> node is a node of either sort.
\<close>

datatype node = Statement stmt | Expression ast

datatype decompiled = ast_FunctionDef "stmt list" | ast_Lambda node | ast_ClassDef "stmt list"

datatype expression = Callable decompiled | Text "stmt list"

fun isinstance_Return :: "stmt \<Rightarrow> bool" where
  "isinstance_Return (ast_Return v) = True"
| "isinstance_Return _ = False"

fun isinstance_Expr :: "stmt \<Rightarrow> bool" where
  "isinstance_Expr (ast_Expr v) = True"
| "isinstance_Expr _ = False"

text \<open>The attribute \<open>value\<close> of a node; the classes without it raise \<open>AttributeError\<close>.\<close>

fun stmt_value :: "stmt \<Rightarrow> error + ast" where
  "stmt_value (ast_Expr v) = Inr v"
| "stmt_value (ast_Return v) = Inr v"
| "stmt_value (ast_Assign targets v) = Inr v"
| "stmt_value ast_Pass = Inl (AttributeError ''value'')"

fun node_value :: "node \<Rightarrow> error + ast" where
  "node_value (Statement s) = stmt_value s"
| "node_value (Expression (ast_Attribute v attr)) = Inr v"
| "node_value (Expression (ast_Subscript v sl)) = Inr v"
| "node_value (Expression _) = Inl (AttributeError ''value'')"

definition container_message :: string where
  "container_message =
     ''expression must be a one-line string, one-line function, or lambda expression''"

text \<open>
  \<open>Expr.parse(expression)\<close>. The list \<open>names\<close> is created empty and never appended to.
  Every path that does not return ends at the final \<open>raise TypeError\<close>.
\<close>

definition parse :: "host \<Rightarrow> expression \<Rightarrow> error + Dim" where
  "parse h expression =
     (let names = [] in
      case expression of
        Callable fcn \<Rightarrow>
          (case fcn of
             ast_FunctionDef body \<Rightarrow>
               if length body = 1 \<and> isinstance_Return (body ! 0)
               then bind (stmt_value (body ! 0)) (\<lambda>v.
                    bind (recurse h True True v) (\<lambda>e. Inr \<lparr>names = names, expr = e\<rparr>))
               else Inl (TypeError container_message)
           | ast_Lambda body \<Rightarrow>
               bind (node_value body) (\<lambda>v.
               bind (recurse h True True v) (\<lambda>e. Inr \<lparr>names = names, expr = e\<rparr>))
           | ast_ClassDef body \<Rightarrow> Inl (TypeError container_message))
      | Text body \<Rightarrow>
          if length body = 1 \<and> isinstance_Expr (body ! 0)
          then bind (stmt_value (body ! 0)) (\<lambda>v.
               bind (recurse h True True v) (\<lambda>e. Inr \<lparr>names = names, expr = e\<rparr>))
          else Inl (TypeError container_message))"

text \<open>An interpreter that offers nothing beyond the integer cases of \<open>calculate\<close>.\<close>

definition bare_host :: host where
  "bare_host =
     \<lparr>operator_result = (\<lambda>f x y. Inl (TypeError ''unsupported operand type(s)'')),
      str_value = (\<lambda>v. []),
      repr_value = (\<lambda>v. []),
      globals = (\<lambda>n. None),
      getattr = (\<lambda>r a. Inl (AttributeError a))\<rparr>"

section \<open>Textual rendering\<close>

text \<open>
  \<open>fmt.format(*fargs)\<close> for the format strings of the module: text is copied, a
  replacement field \<open>{i}\<close> with one digit is replaced by the \<open>i\<close>-th positional argument,
  and an argument that no field names is not looked at.
\<close>

fun format_py :: "string \<Rightarrow> string list \<Rightarrow> error + string" where
  "format_py [] fargs = Inr []"
| "format_py (c # cs) fargs =
     (if c = CHR ''{'' then
        (case cs of
           d # e # rest \<Rightarrow>
             if (48::nat) \<le> of_char d \<and> of_char d \<le> (57::nat) \<and> e = CHR ''}''
             then bind (subscript fargs (of_char d - 48)) (\<lambda>farg.
                  bind (format_py rest fargs) (\<lambda>r. Inr (farg @ r)))
             else Inl (ValueError ''unsupported replacement field'')
         | _ \<Rightarrow> Inl (ValueError ''Single { encountered in format string''))
      else if c = CHR ''}'' then Inl (ValueError ''Single } encountered in format string'')
      else bind (format_py cs fargs) (\<lambda>r. Inr (c # r)))"

text \<open>\<open>sep.join(strings)\<close>.\<close>

fun join :: "string \<Rightarrow> string list \<Rightarrow> string" where
  "join sep [] = []"
| "join sep [x] = x"
| "join sep (x # y # ys) = x @ sep @ join sep (y # ys)"

text \<open>
  A generator expression passed as an argument is an object of its own; it runs only when
  something iterates over it.
\<close>

definition generator :: string where
  "generator = ''<generator object <genexpr>>''"

text \<open>\<open>Expr.__repr__\<close> with the \<open>_reprargs\<close> of each class, and \<open>repr\<close> of a tuple.\<close>

fun repr_obj :: "host \<Rightarrow> obj \<Rightarrow> error + string" where
  "repr_obj h PyNone = Inr ''None''"
| "repr_obj h (Tuple xs) =
     bind (comprehension (map (repr_obj h) xs)) (\<lambda>rs.
       Inr (''('' @ join '', '' rs @ (if length rs = 1 then '','' else []) @ '')''))"
| "repr_obj h (Const v) = format_py ''{0}({1})'' [''Const'', join '', '' [repr_value h v]]"
| "repr_obj h (Name s) =
     format_py ''{0}({1})'' [''Name'', join '', '' [repr_value h (PyStr s)]]"
| "repr_obj h (Call f xs) =
     bind (comprehension (map (repr_obj h) xs)) (\<lambda>rs.
       format_py ''{0}({1})'' [''Call'', join '', '' ([repr_value h (PyStr f)] @ rs)])"
| "repr_obj h (UnaryOp f xs) =
     bind (comprehension (map (repr_obj h) xs)) (\<lambda>rs.
       format_py ''{0}({1})'' [''UnaryOp'', join '', '' ([repr_value h (PyStr f)] @ rs)])"
| "repr_obj h (BinOp f xs) =
     bind (comprehension (map (repr_obj h) xs)) (\<lambda>rs.
       format_py ''{0}({1})'' [''BinOp'', join '', '' ([repr_value h (PyStr f)] @ rs)])"
| "repr_obj h (Relation c a k) =
     bind (repr_obj h a) (\<lambda>ra.
     bind (repr_obj h k) (\<lambda>rk.
       format_py ''{0}({1})'' [''Relation'', join '', '' [repr_value h (PyStr c), ra, rk]]))"
| "repr_obj h (Interval a low high lowclosed) =
     bind (repr_obj h low) (\<lambda>rl.
     bind (repr_obj h high) (\<lambda>rh.
     bind (repr_obj h a) (\<lambda>ra.
       format_py ''{0}({1})''
         [''Interval'',
          join '', '' (if lowclosed then [rl, rh, ra] else [rl, rh, ra, ''lowclosed=False''])])))"
| "repr_obj h (And xs) =
     bind (comprehension (map (repr_obj h) xs)) (\<lambda>rs.
       format_py ''{0}({1})'' [''And'', join '', '' rs])"
| "repr_obj h (Or xs) =
     bind (comprehension (map (repr_obj h) xs)) (\<lambda>rs.
       format_py ''{0}({1})'' [''Or'', join '', '' rs])"

text \<open>
  \<open>__str__\<close> of each class. \<open>UnaryOp.__str__\<close> reads \<open>self.arg\<close>, an attribute that no
  constructor sets. \<open>And.__str__\<close> and \<open>Or.__str__\<close> call \<open>format\<close> on the separator
  with a generator as the argument (the other classes call \<open>join\<close>).
\<close>

fun str_obj :: "host \<Rightarrow> obj \<Rightarrow> error + string" where
  "str_obj h PyNone = Inr ''None''"
| "str_obj h (Tuple xs) = repr_obj h (Tuple xs)"
| "str_obj h (Const v) = Inr (str_value h v)"
| "str_obj h (Name s) = Inr s"
| "str_obj h (Call f xs) =
     bind (comprehension (map (str_obj h) xs)) (\<lambda>ss.
       format_py ''{0}({1})'' [f, join '', '' ss])"
| "str_obj h (UnaryOp f xs) = Inl (AttributeError ''arg'')"
| "str_obj h (BinOp f xs) =
     bind (comprehension (map (\<lambda>x.
             if isinstance_BinOp x then bind (str_obj h x) (\<lambda>s. Inr (''('' @ s @ '')''))
             else str_obj h x) xs)) (\<lambda>ss.
       Inr (join ('' '' @ f @ '' '') ss))"
| "str_obj h (Relation c a k) =
     bind (str_obj h a) (\<lambda>sa.
     bind (str_obj h k) (\<lambda>sk.
       format_py ''{0} {1} {2}'' [sa, c, sk]))"
| "str_obj h (Interval a low high lowclosed) =
     bind (str_obj h low) (\<lambda>sl.
     bind (str_obj h a) (\<lambda>sa.
     bind (str_obj h high) (\<lambda>sh.
       if lowclosed then format_py ''{0} <= {1} < {2}'' [sl, sa, sh]
       else format_py ''{0} < {1} <= {2}'' [sl, sa, sh])))"
| "str_obj h (And xs) = format_py '' and '' [generator]"
| "str_obj h (Or xs) = format_py '' or '' [generator]"

section \<open>Single comparisons\<close>

text \<open>
  C1. The claim: the texts \<open>5 < x\<close> and \<open>x > 5\<close> both translate to
  \<open>Relation(">", Name("x"), Const(5))\<close>. What the source does: at the top level
  \<open>relations\<close> is true, so the test of the single-comparison case evaluates \<open>len(ops)\<close>
  with \<open>ops\<close> unbound, and both texts end in \<open>NameError\<close>. The case behind the test,
  were it reached for \<open>5 < x\<close>, takes the swapped operator from the negation table and
  gives \<open>>=\<close>, not \<open>>\<close>.
\<close>

theorem single_comparison_raises_NameError:
  "parse h (Text [ast_Expr (ast_Compare (ast_Num (PyInt 5)) [ast_Lt]
                              [ast_Name ''x'' ast_Load])])
     = Inl (NameError ''ops'')
   \<and> parse h (Text [ast_Expr (ast_Compare (ast_Name ''x'' ast_Load) [ast_Gt]
                              [ast_Num (PyInt 5)])])
     = Inl (NameError ''ops'')
   \<and> relation_of ''<'' (Const (PyInt 5)) (Name ''x'')
     = Inr (Relation ''>='' (Name ''x'') (Const (PyInt 5)))"
  by (simp add: parse_def ops_def relation_of_def inverse_tbl_def)

section \<open>Chains of one binary operator\<close>

text \<open>
  C2. The claim: \<open>(a + b) + c\<close> and \<open>a + (b + c)\<close> both translate to one \<open>BinOp("+")\<close>
  whose \<open>args\<close> is \<open>(Name("a"), Name("b"), Name("c"))\<close>. What the source does: \<open>BinOp\<close> is
  always constructed with one tuple, which \<open>*args\<close> wraps once more, so \<open>args\<close> has
  one element, and splicing \<open>left.args\<close> or \<open>right.args\<close> nests that element instead of
  flattening it. The two texts give two different trees, neither of them the flat one.
\<close>

theorem same_operator_chain_nests:
  "parse h (Text [ast_Expr (ast_BinOp
       (ast_BinOp (ast_Name a ast_Load) ast_Add (ast_Name b ast_Load)) ast_Add
       (ast_Name c ast_Load))])
     = Inr \<lparr>names = [], expr = BinOp ''+'' [Tuple [Tuple [Name a, Name b], Name c]]\<rparr>
   \<and> parse h (Text [ast_Expr (ast_BinOp
       (ast_Name a ast_Load) ast_Add
       (ast_BinOp (ast_Name b ast_Load) ast_Add (ast_Name c ast_Load)))])
     = Inr \<lparr>names = [], expr = BinOp ''+'' [Tuple [Name a, Tuple [Name b, Name c]]]\<rparr>"
  by (simp add: parse_def binop_of_def)

section \<open>Conjoin and disjoin\<close>

text \<open>
  C3. The claim: for relations \<open>A\<close>, \<open>B\<close>, \<open>C\<close>, \<open>and_fn\<close> applied to \<open>(And(A, B), C)\<close>
  returns \<open>And(A, B, C)\<close>, and in general it builds the Cartesian product across the
  branches of its \<open>Or\<close> operands. What the source does: \<open>itertools.product\<close> receives the
  list of the groups as ONE pool instead of one pool per group, so it yields each group
  whole, as a 1-tuple, and \<open>And(*args)\<close> stores the group as its only child. Without an
  \<open>Or\<close> operand the result is \<open>And((C, A, B),)\<close>, an \<open>And\<close> whose one child is a tuple;
  with the \<open>Or\<close> operand \<open>Or(A, B)\<close> and the plain operand \<open>C\<close> it is
  \<open>Or(And((A, B),), And((C,),))\<close>, one branch per group and no product.
\<close>

theorem and_fn_keeps_groups_whole:
  "and_fn [And [Relation c1 a1 k1, Relation c2 a2 k2], Relation c3 a3 k3]
     = Inr (And [Tuple [Relation c3 a3 k3, Relation c1 a1 k1, Relation c2 a2 k2]])
   \<and> and_fn [Or [Relation c1 a1 k1, Relation c2 a2 k2], Relation c3 a3 k3]
     = Inr (Or [And [Tuple [Relation c1 a1 k1, Relation c2 a2 k2]],
                And [Tuple [Relation c3 a3 k3]]])"
  by (simp add: and_fn_def and_branches_def and_ors_def and_notlogical_def Let_def)

text \<open>
  C7, as amended. For any \<open>A\<close>, \<open>B\<close> and any relation \<open>C\<close>, \<open>or_fn\<close> applied to
  \<open>(Or(A, B), C)\<close> flattens the nested \<open>Or\<close> associatively, without distribution, and
  returns the 3-ary \<open>Or(C, A, B)\<close>: the operands that are not \<open>Or\<close> nodes come first, in
  their order, and the children of the \<open>Or\<close> operands follow, in theirs.
\<close>

theorem or_fn_flattens_others_first:
  "or_fn [Or [A, B], Relation c a k] = Or [Relation c a k, A, B]"
  by (simp add: or_fn_def)

theorem or_fn_flattens_others_first_witness:
  "or_fn [Or [Relation ''>'' (Name ''x'') (Const (PyInt 1)),
              Relation ''<'' (Name ''y'') (Const (PyInt 2))],
          Relation ''=='' (Name ''z'') (Const (PyInt 3))]
     = Or [Relation ''=='' (Name ''z'') (Const (PyInt 3)),
           Relation ''>'' (Name ''x'') (Const (PyInt 1)),
           Relation ''<'' (Name ''y'') (Const (PyInt 2))]"
  using or_fn_flattens_others_first
    [of "Relation ''>'' (Name ''x'') (Const (PyInt 1))"
        "Relation ''<'' (Name ''y'') (Const (PyInt 2))" "''==''" "Name ''z''" "Const (PyInt 3)"]
  by simp

theorem or_fn_counterexample:
  "or_fn [Or [Relation ''>'' (Name ''x'') (Const (PyInt 1)),
              Relation ''<'' (Name ''y'') (Const (PyInt 2))],
          Relation ''=='' (Name ''z'') (Const (PyInt 3))]
     \<noteq> Or [Relation ''>'' (Name ''x'') (Const (PyInt 1)),
            Relation ''<'' (Name ''y'') (Const (PyInt 2)),
            Relation ''=='' (Name ''z'') (Const (PyInt 3))]"
  by (simp add: or_fn_def)

section \<open>Unary operators\<close>

text \<open>
  C4. The claim: a unary minus whose translated operand is \<open>UnaryOp("-", x)\<close> returns \<open>x\<close>,
  so \<open>--x\<close> translates to \<open>Name("x")\<close>, and likewise for \<open>~\<close>. What the source does: it
  returns \<open>content\<close>, the operand itself, which is \<open>UnaryOp("-", x)\<close>: one of the two
  signs is dropped, not both.
\<close>

theorem double_unary_keeps_one:
  "parse h (Text [ast_Expr (ast_UnaryOp ast_USub (ast_UnaryOp ast_USub (ast_Name ''x'' ast_Load)))])
     = Inr \<lparr>names = [], expr = UnaryOp ''-'' [Name ''x'']\<rparr>
   \<and> parse h (Text [ast_Expr
        (ast_UnaryOp ast_Invert (ast_UnaryOp ast_Invert (ast_Name ''x'' ast_Load)))])
     = Inr \<lparr>names = [], expr = UnaryOp ''~'' [Name ''x'']\<rparr>
   \<and> unary_of ''-'' (UnaryOp ''-'' [x]) = UnaryOp ''-'' [x]"
  by (simp add: parse_def unary_of_def)

section \<open>Unhandled syntax\<close>

text \<open>
  C5. The claim: a node of a kind that matches no case makes the translator raise the
  grammar error "unhandled syntax in expression" and never return a value. What the
  source does: the last \<open>else\<close> builds the \<open>ExpressionError\<close> without \<open>raise\<close>, so
  \<open>recurse\<close> returns \<open>None\<close> for such a node (a conditional expression, a subscript, an
  attribute, a list or a tuple display), and the text \<open>x if y else z\<close> translates to a
  \<open>Dim\<close> whose \<open>expr\<close> is \<open>None\<close>. (The rendering of the node by
  \<open>meta.dump_python_source\<close>, evaluated for the message, is taken to return.)
\<close>

theorem unhandled_syntax_returns_None:
  "recurse h relations intervals (ast_IfExp test body orelse) = Inr PyNone
   \<and> recurse h relations intervals (ast_Subscript v sl) = Inr PyNone
   \<and> recurse h relations intervals (ast_Attribute v attr) = Inr PyNone
   \<and> recurse h relations intervals (ast_List elts) = Inr PyNone
   \<and> recurse h relations intervals (ast_Tuple elts) = Inr PyNone
   \<and> parse h (Text [ast_Expr (ast_IfExp (ast_Name ''y'' ast_Load) (ast_Name ''x'' ast_Load)
                                         (ast_Name ''z'' ast_Load))])
     = Inr \<lparr>names = [], expr = PyNone\<rparr>"
  by (simp add: parse_def)

section \<open>Chained comparisons\<close>

text \<open>
  C6. The claim: \<open>0 <= x < 10\<close> translates to
  \<open>Interval(Name("x"), Const(0), Const(10), lowclosed=True)\<close> and \<open>0 < x <= 10\<close> to the
  same with \<open>lowclosed=False\<close>. What the source does: the top level passes
  \<open>relations=True\<close>, so for every comparison node the test of the single-comparison
  case is evaluated first and reads the unbound \<open>ops\<close>; both texts end in \<open>NameError\<close>
  and the interval case is never entered.
\<close>

theorem chained_comparison_raises_NameError:
  "parse h (Text [ast_Expr (ast_Compare (ast_Num (PyInt 0)) [ast_LtE, ast_Lt]
                              [ast_Name ''x'' ast_Load, ast_Num (PyInt 10)])])
     = Inl (NameError ''ops'')
   \<and> parse h (Text [ast_Expr (ast_Compare (ast_Num (PyInt 0)) [ast_Lt, ast_LtE]
                              [ast_Name ''x'' ast_Load, ast_Num (PyInt 10)])])
     = Inl (NameError ''ops'')
   \<and> recurse h True intervals (ast_Compare left node_ops comparators) = Inl (NameError ''ops'')"
  by (simp add: parse_def ops_def)

section \<open>Constant folding\<close>




section \<open>The container error\<close>

text \<open>
  C9. Input that is not reducible to one expression or one return statement (a function
  whose body is not exactly one \<open>return\<close>, a callable that decompiles to neither a
  function nor a lambda, text whose module body is not exactly one expression statement)
  ends in \<open>TypeError\<close>, which is not the \<open>ExpressionError\<close> of the grammar.
\<close>

theorem container_error_is_TypeError:
  "(\<not> (length body = 1 \<and> isinstance_Return (body ! 0))
      \<longrightarrow> parse h (Callable (ast_FunctionDef body)) = Inl (TypeError container_message))
   \<and> (\<not> (length body = 1 \<and> isinstance_Expr (body ! 0))
      \<longrightarrow> parse h (Text body) = Inl (TypeError container_message))
   \<and> parse h (Callable (ast_ClassDef body)) = Inl (TypeError container_message)
   \<and> (\<forall>m. TypeError container_message \<noteq> ExpressionError m)"
  by (simp add: parse_def)

theorem container_error_is_TypeError_witness:
  "parse bare_host (Callable (ast_FunctionDef
       [ast_Assign [ast_Name ''y'' ast_Store] (ast_Name ''x'' ast_Load),
        ast_Return (ast_Name ''y'' ast_Load)]))
     = Inl (TypeError container_message)
   \<and> parse bare_host (Text [ast_Assign [ast_Name ''y'' ast_Store] (ast_Num (PyInt 1))])
     = Inl (TypeError container_message)"
  using container_error_is_TypeError
    [of "[ast_Assign [ast_Name ''y'' ast_Store] (ast_Name ''x'' ast_Load),
          ast_Return (ast_Name ''y'' ast_Load)]" bare_host]
    container_error_is_TypeError
    [of "[ast_Assign [ast_Name ''y'' ast_Store] (ast_Num (PyInt 1))]" bare_host]
  by simp

section \<open>Rendering of conjunctions and disjunctions\<close>

text \<open>
  C10. For every \<open>And\<close> node \<open>str(node)\<close> is the five-character string \<open>" and "\<close>, and for
  every \<open>Or\<close> node it is \<open>" or "\<close>, whatever the children are: their renderings never
  appear, and a child that has none (a \<open>UnaryOp\<close>) does not matter.
\<close>

theorem logical_str_is_separator:
  "str_obj h (And xs) = Inr '' and ''
   \<and> length '' and '' = 5
   \<and> str_obj h (Or xs) = Inr '' or ''
   \<and> str_obj h (And [UnaryOp ''-'' [Name ''x'']]) = Inr '' and ''
   \<and> str_obj h (UnaryOp ''-'' [Name ''x'']) = Inl (AttributeError ''arg'')"
  by simp

end
